theory Spec2Isabelle
  imports Complex_Main "HOL-Library.Sublist" "HOL-Library.Multiset"
begin

section \<open>Strings and errors\<close>

text \<open>
  Titles, links, categories and logins are modelled as \<^typ>\<open>string\<close>, one \<^typ>\<open>char\<close> per
  code unit.

  \<open>String.prototype.toLowerCase\<close> is the host's Unicode lower-casing. Where the source
  applies it to an arbitrary string (the title, in the deduplication) it is a parameter
  \<open>toLowerCase\<close> of the model, and nothing is assumed about it. On a string of ASCII
  letters, digits and \<open>_\<close> the host's function is the lower-casing of the letters \<open>A\<close>..\<open>Z\<close>,
  which is \<open>asciiLowerCase\<close> below: that is the case in \<open>sanitizeKey\<close>, the only place
  where the model writes it out for code that is among the sources.
\<close>

definition asciiLowerChar :: "char \<Rightarrow> char" where
  "asciiLowerChar c =
     (case map_of (zip ''ABCDEFGHIJKLMNOPQRSTUVWXYZ'' ''abcdefghijklmnopqrstuvwxyz'') c of
        Some l \<Rightarrow> l
      | None \<Rightarrow> c)"

definition asciiLowerCase :: "string \<Rightarrow> string" where
  "asciiLowerCase s = map asciiLowerChar s"

text \<open>
  \<open>String.prototype.includes\<close> (named \<open>includesStr\<close> here): \<open>includesStr s q\<close> holds
  when \<open>q\<close> occurs in \<open>s\<close> as a contiguous run of characters, found by trying every start
  position from the left.
\<close>

fun startsWith :: "string \<Rightarrow> string \<Rightarrow> bool" where
  "startsWith s [] = True"
| "startsWith [] (c # q) = False"
| "startsWith (d # s) (c # q) = (d = c \<and> startsWith s q)"

fun includesStr :: "string \<Rightarrow> string \<Rightarrow> bool" where
  "includesStr [] q = (q = [])"
| "includesStr (d # s) q = (startsWith (d # s) q \<or> includesStr s q)"

text \<open>
  An exception is a value: a function that can raise returns \<open>Inl\<close> of the error, and
  \<open>bindE\<close> runs the rest of a body only when the first part has returned.
\<close>

datatype js_error = TypeError

definition bindE :: "js_error + 'a \<Rightarrow> ('a \<Rightarrow> js_error + 'b) \<Rightarrow> js_error + 'b" where
  "bindE r f = (case r of Inl e \<Rightarrow> Inl e | Inr v \<Rightarrow> f v)"

section \<open>Project records and the deduplicated store\<close>

text \<open>
  A project record as parsed from JSON. Every field may be absent (\<open>undefined\<close>), which is
  \<open>None\<close>; a field that is present holds a string (\<open>tech\<close>: a sequence of strings).
\<close>

record project =
  title :: "string option"
  link :: "string option"
  category :: "string option"
  description :: "string option"
  tech :: "string list option"

text \<open>
  JavaScript truthiness of an optional string: \<open>undefined\<close> and the empty string are falsy.
\<close>

fun truthy :: "string option \<Rightarrow> bool" where
  "truthy None = False"
| "truthy (Some s) = (s \<noteq> [])"

text \<open>
  An element of a parsed catalog, or a parsed per-project document. Besides a project
  record it can be \<open>null\<close>, a primitive (a number, a string, a boolean), or an object whose
  \<open>title\<close> is a JSON value that is no string; of such an object the model keeps whether
  the title is truthy and whether the link is.
\<close>

datatype element =
  NullElement
| PrimitiveElement
| NonStringTitle bool bool
| Record project

text \<open>
  The deduplication of \<open>ProjectManager.fetchProjects\<close>:
  \<^verbatim>\<open>
  const seen = new Set();
  this.state.allProjects = projects.filter(project => {
      if (!project.title || !project.link) return false;
      const key = project.title.toLowerCase();
      if (seen.has(key)) return false;
      seen.add(key);
      return true;
  });
  \<close>
  The callback runs on the elements from left to right and threads the set \<open>seen\<close>.
  \<open>project.title\<close> raises on \<open>null\<close> and is \<open>undefined\<close> on a primitive;
  \<open>project.title.toLowerCase()\<close> raises on a truthy title that is no string. An
  exception ends the filter and leaves \<open>allProjects\<close> unassigned.
\<close>

fun dedupeFrom :: "(string \<Rightarrow> string) \<Rightarrow> string set \<Rightarrow> element list \<Rightarrow> js_error + project list" where
  "dedupeFrom toLowerCase seen [] = Inr []"
| "dedupeFrom toLowerCase seen (NullElement # rest) = Inl TypeError"
| "dedupeFrom toLowerCase seen (PrimitiveElement # rest) = dedupeFrom toLowerCase seen rest"
| "dedupeFrom toLowerCase seen (NonStringTitle titleTruthy linkTruthy # rest) =
     (if \<not> titleTruthy \<or> \<not> linkTruthy then dedupeFrom toLowerCase seen rest
      else Inl TypeError)"
| "dedupeFrom toLowerCase seen (Record p # rest) =
     (if \<not> truthy (title p) \<or> \<not> truthy (link p) then dedupeFrom toLowerCase seen rest
      else (case title p of
              None \<Rightarrow> dedupeFrom toLowerCase seen rest
            | Some t \<Rightarrow>
                (let key = toLowerCase t in
                 if key \<in> seen then dedupeFrom toLowerCase seen rest
                 else bindE (dedupeFrom toLowerCase (insert key seen) rest)
                        (\<lambda>kept. Inr (p # kept)))))"

definition dedupe :: "(string \<Rightarrow> string) \<Rightarrow> element list \<Rightarrow> js_error + project list" where
  "dedupe toLowerCase projects = dedupeFrom toLowerCase {} projects"

text \<open>The vocabulary of the deduplication claim.\<close>

definition hasTitleAndLink :: "project \<Rightarrow> bool" where
  "hasTitleAndLink p = (truthy (title p) \<and> truthy (link p))"

definition titleKey :: "(string \<Rightarrow> string) \<Rightarrow> project \<Rightarrow> string" where
  "titleKey toLowerCase p = (case title p of None \<Rightarrow> [] | Some t \<Rightarrow> toLowerCase t)"

text \<open>
  \<open>firstOccurrence toLowerCase ps i\<close>: record \<open>i\<close> has a title and a link, and no earlier
  record with a title and a link has the same lowercased title.
\<close>

definition firstOccurrence :: "(string \<Rightarrow> string) \<Rightarrow> project list \<Rightarrow> nat \<Rightarrow> bool" where
  "firstOccurrence toLowerCase ps i =
     (hasTitleAndLink (ps ! i) \<and>
      (\<forall>j < i. hasTitleAndLink (ps ! j) \<longrightarrow>
         titleKey toLowerCase (ps ! j) \<noteq> titleKey toLowerCase (ps ! i)))"

text \<open>An element on which the callback of the filter raises.\<close>

fun raisesInFilter :: "element \<Rightarrow> bool" where
  "raisesInFilter NullElement = True"
| "raisesInFilter PrimitiveElement = False"
| "raisesInFilter (NonStringTitle titleTruthy linkTruthy) = (titleTruthy \<and> linkTruthy)"
| "raisesInFilter (Record p) = False"

text \<open>The project records among the elements, in order.\<close>

fun recordsOf :: "element list \<Rightarrow> project list" where
  "recordsOf [] = []"
| "recordsOf (Record p # rest) = p # recordsOf rest"
| "recordsOf (NullElement # rest) = recordsOf rest"
| "recordsOf (PrimitiveElement # rest) = recordsOf rest"
| "recordsOf (NonStringTitle titleTruthy linkTruthy # rest) = recordsOf rest"

section \<open>Network responses\<close>

text \<open>
  What \<open>await fetch(url)\<close> followed by \<open>await response.json()\<close> can produce: the fetch
  promise rejects, or it resolves with a response that carries the flag \<open>response.ok\<close> and
  a body whose parse either rejects (\<open>None\<close>) or yields a value.
\<close>

datatype 'a response = Rejected | Response bool "'a option"


text \<open>
  The parsed body of \<open>projects.json\<close>: \<open>null\<close>, an array of elements, or any other JSON
  value (an object, a number, a string).
\<close>

datatype catalog = JNull | JArray "element list" | JOther





text \<open>
  \<open>fetchFromLegacyJson\<close>: the parsed body of \<open>projects.json\<close> whatever it is, and the empty
  array when the fetch rejects, the response is not ok or the body does not parse. It
  never raises.
\<close>

definition fetchFromLegacyJson :: "catalog response \<Rightarrow> catalog" where
  "fetchFromLegacyJson legacyResponse =
     (case legacyResponse of
        Rejected \<Rightarrow> JArray []
      | Response ok body \<Rightarrow>
          if \<not> ok then JArray []
          else (case body of None \<Rightarrow> JArray [] | Some v \<Rightarrow> v))"

text \<open>
  \<open>!projects || projects.length === 0\<close>, for the value that \<open>fetchFromManifest\<close> returns.
\<close>

fun nothingLoaded :: "element list option \<Rightarrow> bool" where
  "nothingLoaded None = True"
| "nothingLoaded (Some ps) = (ps = [])"

text \<open>
  The names that the \<open>try\<close> block of \<open>fetchProjects\<close> (lines 72 to 105) declares with
  \<open>let\<close> or \<open>const\<close> directly in the block, in source order: \<open>let projects\<close> on line 77,
  \<open>let projects\<close> again on line 78, \<open>const seen\<close> on line 87.
\<close>

definition tryBlockDeclarations :: "string list" where
  "tryBlockDeclarations = [''projects'', ''projects'', ''seen'']"

text \<open>
  The early error of the language for a block: a name declared twice by \<open>let\<close> or \<open>const\<close>
  in one block is a \<open>SyntaxError\<close>, raised when the module is parsed, before any of its
  code runs.
\<close>

definition earlySyntaxError :: "string list \<Rightarrow> bool" where
  "earlySyntaxError declared = (\<not> distinct declared)"

section \<open>Ratings\<close>

text \<open>
  \<open>this.ratings\<close> is a plain object. Its own properties are the string-keyed map from a
  sanitized title to the sequence of rating entries. A key that is not an own property
  is looked up in \<open>Object.prototype\<close>: of the names that \<open>sanitizeKey\<close> can produce (lower-case
  letters, digits and \<open>_\<close>) two are inherited, \<open>constructor\<close> and \<open>__proto__\<close>, and their
  values are truthy and are no arrays. A rating is an integer (the modal offers 1 to 5),
  so the sum of a sequence is exact and only the final division leaves the integers;
  it is taken in the reals.
\<close>

record rating_entry =
  rating :: int
  review :: string
  timestamp :: int

type_synonym ratings = "string \<rightharpoonup> rating_entry list"

record rating_summary =
  average :: real
  count :: nat

definition inheritedName :: "string \<Rightarrow> bool" where
  "inheritedName key = (key = ''constructor'' \<or> key = ''__proto__'')"

text \<open>The value of \<open>this.ratings[key]\<close>.\<close>

datatype looked_up = Undefined | Own "rating_entry list" | Inherited

definition lookupRatings :: "ratings \<Rightarrow> string \<Rightarrow> looked_up" where
  "lookupRatings ratings key =
     (case ratings key of
        Some rs \<Rightarrow> Own rs
      | None \<Rightarrow> if inheritedName key then Inherited else Undefined)"

text \<open>The character class \<open>[a-zA-Z0-9]\<close>.\<close>

definition isAlnum :: "char \<Rightarrow> bool" where
  "isAlnum c =
     (c \<in> set ''abcdefghijklmnopqrstuvwxyzABCDEFGHIJKLMNOPQRSTUVWXYZ0123456789'')"

text \<open>
  \<open>title.replace(/[^a-zA-Z0-9]/g, '_').toLowerCase()\<close>. After the replacement the string
  holds ASCII letters, digits and \<open>_\<close> only, so the lower-casing is that of \<open>A\<close>..\<open>Z\<close>.
\<close>

definition sanitizeKey :: "string \<Rightarrow> string" where
  "sanitizeKey t = asciiLowerCase (map (\<lambda>c. if isAlnum c then c else CHR ''_'') t)"

text \<open>
  \<open>getProjectRating\<close>:
  \<^verbatim>\<open>
  const key = this.sanitizeKey(projectTitle);
  const projectRatings = this.ratings[key] || [];
  if (projectRatings.length === 0) return { average: 0, count: 0 };
  const sum = projectRatings.reduce((acc, r) => acc + r.rating, 0);
  return { average: sum / projectRatings.length, count: projectRatings.length };
  \<close>
  An inherited value is truthy, its \<open>length\<close> is not \<open>0\<close> and it has no \<open>reduce\<close>: the call
  raises.
\<close>

definition getProjectRating :: "ratings \<Rightarrow> string \<Rightarrow> js_error + rating_summary" where
  "getProjectRating ratings projectTitle =
     (let key = sanitizeKey projectTitle
      in case lookupRatings ratings key of
           Inherited \<Rightarrow> Inl TypeError
         | Undefined \<Rightarrow> Inr \<lparr>average = 0, count = 0\<rparr>
         | Own projectRatings \<Rightarrow>
             if length projectRatings = 0 then Inr \<lparr>average = 0, count = 0\<rparr>
             else
               let sum = foldl (\<lambda>acc r. acc + rating r) 0 projectRatings
               in Inr \<lparr>average = of_int sum / of_nat (length projectRatings),
                       count = length projectRatings\<rparr>)"




section \<open>The visibility engine\<close>

text \<open>
  Modelled from the spec: the class \<open>ProjectVisibilityEngine\<close> of
  \<open>js/core/projectVisibilityEngine.js\<close>, which \<open>app.js\<close> imports, is not among the source
  files. Its state, by section 3 of the specification: the store it was constructed with,
  the search query, the category filter (\<open>None\<close> when unset), the current page and the page
  size.
\<close>

record engine =
  store :: "project list"
  searchQuery :: string
  categoryFilter :: "string option"
  enginePage :: int
  itemsPerPage :: nat

text \<open>
  Modelled from the spec: the constructor of the missing engine, called as
  \<open>new ProjectVisibilityEngine(this.state.allProjects)\<close>; no query, no category, page 1.
\<close>

definition newEngine :: "project list \<Rightarrow> engine" where
  "newEngine ps =
     \<lparr>store = ps, searchQuery = [], categoryFilter = None, enginePage = 1, itemsPerPage = 0\<rparr>"

text \<open>
  Modelled from the spec: the setters of the missing engine, "pure setters" by section
  4.1; the next three definitions.
\<close>

definition setSearchQuery :: "string \<Rightarrow> engine \<Rightarrow> engine" where
  "setSearchQuery q e = e\<lparr>searchQuery := q\<rparr>"

definition setCategory :: "string \<Rightarrow> engine \<Rightarrow> engine" where
  "setCategory c e = e\<lparr>categoryFilter := Some c\<rparr>"

definition setPage :: "int \<Rightarrow> engine \<Rightarrow> engine" where
  "setPage n e = e\<lparr>enginePage := n\<rparr>"

text \<open>
  Modelled from the spec: the category test of the missing engine, "exact match, or all
  records when category is \<open>all\<close> or unset".
\<close>

definition matchesCategory :: "string option \<Rightarrow> project \<Rightarrow> bool" where
  "matchesCategory c p =
     (case c of None \<Rightarrow> True | Some wanted \<Rightarrow> wanted = ''all'' \<or> category p = Some wanted)"

text \<open>
  Modelled from the spec: the search test of the missing engine, "containing the current
  \<open>searchQuery\<close> as a case-insensitive substring in at least one of title, description,
  tech entries; empty query matches everything"; the next three definitions. A field
  that is absent contains nothing. Case is ignored by lower-casing the letters \<open>A\<close>..\<open>Z\<close>
  on both sides.
\<close>

definition fieldIncludes :: "string option \<Rightarrow> string \<Rightarrow> bool" where
  "fieldIncludes field q =
     (case field of None \<Rightarrow> False | Some s \<Rightarrow> includesStr (asciiLowerCase s) (asciiLowerCase q))"

definition techIncludes :: "string list option \<Rightarrow> string \<Rightarrow> bool" where
  "techIncludes field q =
     (case field of
        None \<Rightarrow> False
      | Some ts \<Rightarrow> list_ex (\<lambda>t. includesStr (asciiLowerCase t) (asciiLowerCase q)) ts)"

definition matchesQuery :: "string \<Rightarrow> project \<Rightarrow> bool" where
  "matchesQuery q p =
     (q = [] \<or> fieldIncludes (title p) q \<or> fieldIncludes (description p) q \<or>
      techIncludes (tech p) q)"

text \<open>
  Modelled from the spec: \<open>getVisibleProjects()\<close> of the missing engine, the records of
  the store that pass both tests, computed afresh on every call.
\<close>

definition getVisibleProjects :: "engine \<Rightarrow> project list" where
  "getVisibleProjects e =
     filter (\<lambda>p. matchesCategory (categoryFilter e) p \<and> matchesQuery (searchQuery e) p)
       (store e)"

text \<open>
  The contract of the engine in the words of its specification: a record is in the
  category when the filter is unset, is \<open>all\<close>, or equals the record's category; it
  contains the query when the lowercased query is a contiguous part of the lowercased
  title, description or one of the tech entries.
\<close>

definition inCategory :: "string option \<Rightarrow> project \<Rightarrow> bool" where
  "inCategory c p = (c = None \<or> c = Some ''all'' \<or> category p = c)"

definition containsQuery :: "string \<Rightarrow> project \<Rightarrow> bool" where
  "containsQuery q p =
     ((\<exists>t. title p = Some t \<and> sublist (asciiLowerCase q) (asciiLowerCase t)) \<or>
      (\<exists>d. description p = Some d \<and> sublist (asciiLowerCase q) (asciiLowerCase d)) \<or>
      (\<exists>ts t. tech p = Some ts \<and> t \<in> set ts \<and> sublist (asciiLowerCase q) (asciiLowerCase t)))"

section \<open>Rendering: sorting and pagination\<close>

record config =
  ITEMS_PER_PAGE :: nat
  ANIMATION_DELAY :: nat

definition defaultConfig :: config where
  "defaultConfig = \<lparr>ITEMS_PER_PAGE = 12, ANIMATION_DELAY = 50\<rparr>"

text \<open>
  \<open>Array.prototype.sort(comparefn)\<close>. The language requires the sort to be stable, and for
  a consistent comparator the result is determined: \<open>a\<close> comes before \<open>b\<close> when
  \<open>comparefn(a, b) < 0\<close>, and elements that compare equal keep their order. The model is
  the insertion sort with that outcome: an element is placed in front of the first later
  element that it does not compare greater than. An exception of \<open>comparefn\<close> ends the
  sort. A list of fewer than two elements is returned without a call of \<open>comparefn\<close>; in a
  longer list every element takes part in a comparison, in the model as in any sort.
\<close>

fun insort_js :: "('a \<Rightarrow> 'a \<Rightarrow> js_error + real) \<Rightarrow> 'a \<Rightarrow> 'a list \<Rightarrow> js_error + 'a list" where
  "insort_js comparefn x [] = Inr [x]"
| "insort_js comparefn x (y # ys) =
     bindE (comparefn x y)
       (\<lambda>v. if v \<le> 0 then Inr (x # y # ys)
            else bindE (insort_js comparefn x ys) (\<lambda>zs. Inr (y # zs)))"

fun sort_js :: "('a \<Rightarrow> 'a \<Rightarrow> js_error + real) \<Rightarrow> 'a list \<Rightarrow> js_error + 'a list" where
  "sort_js comparefn [] = Inr []"
| "sort_js comparefn (x # xs) = bindE (sort_js comparefn xs) (insort_js comparefn x)"

text \<open>
  The same sort for a comparator that never raises; the properties of the sorted list
  are stated with it.
\<close>

fun insortBy :: "('a \<Rightarrow> 'a \<Rightarrow> real) \<Rightarrow> 'a \<Rightarrow> 'a list \<Rightarrow> 'a list" where
  "insortBy compare x [] = [x]"
| "insortBy compare x (y # ys) =
     (if compare x y \<le> 0 then x # y # ys else y # insortBy compare x ys)"

definition sortBy :: "('a \<Rightarrow> 'a \<Rightarrow> real) \<Rightarrow> 'a list \<Rightarrow> 'a list" where
  "sortBy compare xs = foldr (insortBy compare) xs []"

text \<open>
  A consistent comparator, as the language requires of \<open>comparefn\<close> for the sort order to
  be defined: the sign of \<open>comparefn(a, b)\<close> is opposite to that of \<open>comparefn(b, a)\<close>, and
  "not greater" is transitive.
\<close>

definition consistentComparator :: "('a \<Rightarrow> 'a \<Rightarrow> real) \<Rightarrow> bool" where
  "consistentComparator compare =
     ((\<forall>a b. (compare a b < 0) = (0 < compare b a)) \<and>
      (\<forall>a b c. compare a b \<le> 0 \<and> compare b c \<le> 0 \<longrightarrow> compare a c \<le> 0))"

text \<open>
  The title read by the comparators and the card builder, \<open>a.title\<close>. Every record of
  the store has one; the empty string stands in for a missing title.
\<close>

definition titleOf :: "project \<Rightarrow> string" where
  "titleOf p = (case title p of Some t \<Rightarrow> t | None \<Rightarrow> [])"

text \<open>\<open>this.getProjectRating(a.title).average\<close>.\<close>

definition ratingOf :: "ratings \<Rightarrow> project \<Rightarrow> js_error + real" where
  "ratingOf ratings p = bindE (getProjectRating ratings (titleOf p)) (\<lambda>r. Inr (average r))"

text \<open>
  Whether that expression raises for a record, and its value when it does not.
\<close>

definition ratingRaises :: "ratings \<Rightarrow> project \<Rightarrow> bool" where
  "ratingRaises ratings p = (ratingOf ratings p = Inl TypeError)"

definition ratingAverage :: "ratings \<Rightarrow> project \<Rightarrow> real" where
  "ratingAverage ratings p = (case ratingOf ratings p of Inl e \<Rightarrow> 0 | Inr v \<Rightarrow> v)"

text \<open>
  The sort step of \<open>render\<close>:
  \<^verbatim>\<open>
  const sortMode = el.sortSelect?.value || 'default';
  if (sortMode === 'az') filtered.sort((a, b) => a.title.localeCompare(b.title));
  else if (sortMode === 'za') filtered.sort((a, b) => b.title.localeCompare(a.title));
  else if (sortMode === 'newest') filtered.reverse();
  else if (sortMode === 'rating-high') { filtered.sort((a, b) => ... ratingB - ratingA) }
  else if (sortMode === 'rating-low') { filtered.sort((a, b) => ... ratingA - ratingB) }
  \<close>
  \<open>String.prototype.localeCompare\<close> is the host's collation; it is the parameter
  \<open>localeCompare\<close>, a function from two strings to a number. In the rating comparators
  \<open>ratingA\<close> is computed before \<open>ratingB\<close>.
\<close>

definition sortModeOf :: "string option \<Rightarrow> string" where
  "sortModeOf selected =
     (case selected of None \<Rightarrow> ''default'' | Some v \<Rightarrow> if v = [] then ''default'' else v)"

definition applySort ::
  "(string \<Rightarrow> string \<Rightarrow> real) \<Rightarrow> ratings \<Rightarrow> string \<Rightarrow> project list \<Rightarrow>
   js_error + project list" where
  "applySort localeCompare ratings sortMode filtered =
     (if sortMode = ''az'' then
        sort_js (\<lambda>a b. Inr (localeCompare (titleOf a) (titleOf b))) filtered
      else if sortMode = ''za'' then
        sort_js (\<lambda>a b. Inr (localeCompare (titleOf b) (titleOf a))) filtered
      else if sortMode = ''newest'' then Inr (rev filtered)
      else if sortMode = ''rating-high'' then
        sort_js (\<lambda>a b.
          bindE (ratingOf ratings a) (\<lambda>ratingA.
          bindE (ratingOf ratings b) (\<lambda>ratingB.
          Inr (ratingB - ratingA)))) filtered
      else if sortMode = ''rating-low'' then
        sort_js (\<lambda>a b.
          bindE (ratingOf ratings a) (\<lambda>ratingA.
          bindE (ratingOf ratings b) (\<lambda>ratingB.
          Inr (ratingA - ratingB)))) filtered
      else Inr filtered)"

text \<open>
  \<open>Array.prototype.slice(start, end)\<close>: a negative index counts from the end, and both
  indices are clamped to the array.
\<close>

definition slice :: "'a list \<Rightarrow> int \<Rightarrow> int \<Rightarrow> 'a list" where
  "slice xs start stop =
     (let len = int (length xs);
          k = (if start < 0 then max (len + start) 0 else min start len);
          final = (if stop < 0 then max (len + stop) 0 else min stop len)
      in take (nat (final - k)) (drop (nat k) xs))"

text \<open>
  The pagination step of \<open>render\<close>:
  \<^verbatim>\<open>
  const totalPages = Math.ceil(filtered.length / this.config.ITEMS_PER_PAGE);
  const start = (this.state.currentPage - 1) * this.config.ITEMS_PER_PAGE;
  const pageItems = filtered.slice(start, start + this.config.ITEMS_PER_PAGE);
  \<close>
  The quotient of two array lengths is taken in the reals: for lengths an array can have,
  the rounding of the floating-point division does not move the ceiling. The page size
  is a positive constant of the configuration; a page size of \<open>0\<close>, where the source
  divides by zero, is outside the model.
\<close>

definition totalPages :: "config \<Rightarrow> 'a list \<Rightarrow> int" where
  "totalPages cfg filtered = \<lceil>real (length filtered) / real (ITEMS_PER_PAGE cfg)\<rceil>"

definition pageItems :: "config \<Rightarrow> int \<Rightarrow> 'a list \<Rightarrow> 'a list" where
  "pageItems cfg currentPage filtered =
     (let start = (currentPage - 1) * int (ITEMS_PER_PAGE cfg)
      in slice filtered start (start + int (ITEMS_PER_PAGE cfg)))"

text \<open>
  \<open>renderCardView\<close> maps the records of the page to HTML, which is not modelled; for each
  record it calls \<open>this.getProjectRating(project.title)\<close>, and that call can raise.
\<close>

definition renderCardView :: "ratings \<Rightarrow> project list \<Rightarrow> js_error + unit" where
  "renderCardView ratings projects =
     (if list_ex (ratingRaises ratings) projects then Inl TypeError else Inr ())"

text \<open>
  What \<open>render\<close> hands to the card or list builder and to \<open>renderPagination\<close>: the records
  of the page, the page count (\<open>0\<close> when the page is empty) and whether the empty-state
  element is shown.
\<close>

record view =
  shownItems :: "project list"
  shownPages :: int
  emptyStateShown :: bool

text \<open>
  The part of \<open>render\<close> after the sort, for a grid element that exists. While skeleton
  cards are in the grid (\<open>skeletonCards\<close>, as during the first rendering of a load) the
  cards are built later, from a timer, and an exception there does not reach the caller
  of \<open>render\<close>; otherwise \<open>renderCardView\<close> runs at once, in either view mode.
\<close>

definition paginate :: "config \<Rightarrow> ratings \<Rightarrow> int \<Rightarrow> bool \<Rightarrow> project list \<Rightarrow> js_error + view" where
  "paginate cfg ratings currentPage skeletonCards filtered =
     (let items = pageItems cfg currentPage filtered
      in bindE (if skeletonCards then Inr () else renderCardView ratings items)
           (\<lambda>built.
              if length items = 0
              then Inr \<lparr>shownItems = items, shownPages = 0, emptyStateShown = True\<rparr>
              else Inr \<lparr>shownItems = items, shownPages = totalPages cfg filtered,
                        emptyStateShown = False\<rparr>))"

text \<open>
  \<open>render\<close>, for an engine that exists: the engine's result is sorted by the mode of the
  sort control (\<open>selected\<close> is \<open>el.sortSelect?.value\<close>) and then paginated.
\<close>

definition render ::
  "config \<Rightarrow> (string \<Rightarrow> string \<Rightarrow> real) \<Rightarrow> ratings \<Rightarrow> string option \<Rightarrow> int \<Rightarrow> bool \<Rightarrow>
   engine \<Rightarrow> js_error + view" where
  "render cfg localeCompare ratings selected currentPage skeletonCards e =
     (let filtered = getVisibleProjects (setPage currentPage e)
      in bindE (applySort localeCompare ratings (sortModeOf selected) filtered)
           (paginate cfg ratings currentPage skeletonCards))"

text \<open>
  The body of \<open>fetchProjects\<close> from line 80 to its end, as a function of the value that
  \<open>projects\<close> holds there (a result of \<open>fetchFromManifest\<close>: \<open>null\<close> or an array); lines 77
  and 78, which bind it, are the subject of \<open>tryBlockDeclarations\<close>. \<open>projects.filter\<close>
  raises when \<open>projects\<close> is no array. \<open>showSkeletonCards\<close> has filled the grid, so the
  rendering is the one with skeleton cards. On success the outcome is the store, its
  engine and the rendering; when an exception reaches the \<open>catch\<close>, it is the message
  \<open>Failed to load projects. Please refresh.\<close> in place of the grid, with
  \<open>this.state.allProjects\<close> as it is then (empty before the load).
\<close>

datatype screen = ErrorMessage "project list" | Loaded "project list" engine view

definition fetchProjectsFrom ::
  "config \<Rightarrow> (string \<Rightarrow> string \<Rightarrow> real) \<Rightarrow> (string \<Rightarrow> string) \<Rightarrow> ratings \<Rightarrow> string option \<Rightarrow>
   int \<Rightarrow> element list option \<Rightarrow> catalog response \<Rightarrow> screen" where
  "fetchProjectsFrom cfg localeCompare toLowerCase ratings selected currentPage projects
     legacyResponse =
     (let projects = (if nothingLoaded projects then fetchFromLegacyJson legacyResponse
                      else (case projects of None \<Rightarrow> JNull | Some ps \<Rightarrow> JArray ps))
      in case projects of
           JNull \<Rightarrow> ErrorMessage []
         | JOther \<Rightarrow> ErrorMessage []
         | JArray elements \<Rightarrow>
             (case dedupe toLowerCase elements of
                Inl error \<Rightarrow> ErrorMessage []
              | Inr allProjects \<Rightarrow>
                  (let visibilityEngine =
                         (newEngine allProjects)\<lparr>itemsPerPage := ITEMS_PER_PAGE cfg\<rparr>
                   in case render cfg localeCompare ratings selected currentPage True
                             visibilityEngine of
                        Inl error \<Rightarrow> ErrorMessage allProjects
                      | Inr shown \<Rightarrow> Loaded allProjects visibilityEngine shown)))"

section \<open>Contributors\<close>

record contributor =
  login :: string
  avatar_url :: string
  html_url :: string
  contributions :: nat

datatype contributors_json = ContributorArray "contributor list" | NotAnArray

datatype contributors_grid = Cards "contributor list" | UnableToLoad

text \<open>
  \<open>fetchContributors\<close>, given that the grid element exists. The response's \<open>ok\<close> flag is
  not looked at: the body is parsed whatever the status. A body that is no array makes
  \<open>contributors.filter\<close> raise, and every exception ends in the message
  \<open>Unable to load contributors\<close>. The cards are listed in the order of
  \<open>humanContributors\<close>.
\<close>

definition humanContributors :: "contributor list \<Rightarrow> contributor list" where
  "humanContributors contributors = filter (\<lambda>c. \<not> includesStr (login c) ''[bot]'') contributors"

definition fetchContributors :: "contributors_json response \<Rightarrow> contributors_grid" where
  "fetchContributors apiResponse =
     (case apiResponse of
        Rejected \<Rightarrow> UnableToLoad
      | Response ok body \<Rightarrow>
          (case body of
             None \<Rightarrow> UnableToLoad
           | Some NotAnArray \<Rightarrow> UnableToLoad
           | Some (ContributorArray contributors) \<Rightarrow> Cards (humanContributors contributors)))"

section \<open>Sample data\<close>

text \<open>Concrete records on which the properties below are exercised.\<close>

definition sampleFoo :: project where
  "sampleFoo = \<lparr>title = Some ''Foo'', link = Some ''./projects/foo/index.html'',
     category = Some ''game'', description = Some ''A Foo game'', tech = Some [''HTML'', ''CSS'']\<rparr>"

definition sampleFooLower :: project where
  "sampleFooLower = \<lparr>title = Some ''foo'', link = Some ''./projects/foo2/index.html'',
     category = Some ''utility'', description = None, tech = None\<rparr>"

definition sampleNoLink :: project where
  "sampleNoLink = \<lparr>title = Some ''FOO'', link = None,
     category = Some ''game'', description = None, tech = None\<rparr>"

definition sampleBar :: project where
  "sampleBar = \<lparr>title = Some ''Foo Bar'', link = Some ''./projects/bar/index.html'',
     category = Some ''utility'', description = Some ''Bars'', tech = Some [''JavaScript'']\<rparr>"

definition sampleStars :: "rating_entry list" where
  "sampleStars =
     [\<lparr>rating = 5, review = ''Great'', timestamp = 1700000000000\<rparr>,
      \<lparr>rating = 3, review = [], timestamp = 1700000001000\<rparr>,
      \<lparr>rating = 4, review = ''Nice'', timestamp = 1700000002000\<rparr>]"

definition sampleRatings :: ratings where
  "sampleRatings = [''foo_bar'' \<mapsto> sampleStars]"

definition sampleDash :: project where
  "sampleDash = \<lparr>title = Some ''foo-bar'', link = Some ''./projects/dash/index.html'',
     category = Some ''game'', description = None, tech = None\<rparr>"

definition sampleContributors :: "contributor list" where
  "sampleContributors =
     [\<lparr>login = ''alice'', avatar_url = ''https://avatars.example/1'',
       html_url = ''https://github.com/alice'', contributions = 42\<rparr>,
      \<lparr>login = ''dependabot[bot]'', avatar_url = ''https://avatars.example/2'',
       html_url = ''https://github.com/apps/dependabot'', contributions = 17\<rparr>,
      \<lparr>login = ''bob'', avatar_url = ''https://avatars.example/3'',
       html_url = ''https://github.com/bob'', contributions = 3\<rparr>]"




text \<open>
  A sample collation for exercising the title sorts: it compares the first letters,
  ignoring case.
\<close>

definition firstLetterRank :: "string \<Rightarrow> nat" where
  "firstLetterRank s = (case s of [] \<Rightarrow> 0 | c # cs \<Rightarrow> of_char (asciiLowerChar c))"

definition sampleCollation :: "string \<Rightarrow> string \<Rightarrow> real" where
  "sampleCollation a b = real (firstLetterRank a) - real (firstLetterRank b)"




text \<open>A record whose sanitized key is a name that every object inherits.\<close>

definition sampleConstructor :: project where
  "sampleConstructor = \<lparr>title = Some ''Constructor'',
     link = Some ''./projects/constructor/index.html'',
     category = Some ''utility'', description = None, tech = None\<rparr>"

text \<open>
  A sample fold for exercising the deduplication on letters outside \<open>A\<close>..\<open>Z\<close>: beyond
  the ASCII letters it lowers the capital E with acute accent (code \<open>0xC9\<close>) to the small
  one (code \<open>0xE9\<close>), as \<open>String.prototype.toLowerCase\<close> does; and two records whose titles
  differ in that letter only.
\<close>

definition sampleFold :: "string \<Rightarrow> string" where
  "sampleFold s = map (\<lambda>c. if c = CHR 0xC9 then CHR 0xE9 else asciiLowerChar c) s"

definition sampleEcole :: project where
  "sampleEcole = \<lparr>title = Some [CHR 0xC9, CHR ''c'', CHR ''o'', CHR ''l'', CHR ''e''],
     link = Some ''./projects/ecole/index.html'', category = Some ''game'',
     description = None, tech = None\<rparr>"

definition sampleEcoleLower :: project where
  "sampleEcoleLower = \<lparr>title = Some [CHR 0xE9, CHR ''c'', CHR ''o'', CHR ''l'', CHR ''e''],
     link = Some ''./projects/ecole2/index.html'', category = Some ''game'',
     description = None, tech = None\<rparr>"

section \<open>Properties: the deduplicated store\<close>

lemma bindE_simps [simp]:
  "bindE (Inl e) f = Inl e" "bindE (Inr v) f = f v"
  by (simp_all add: bindE_def)

lemma js_error_TypeError: "(e :: js_error) = TypeError"
  by (cases e) simp

lemma firstOccurrence_0: "firstOccurrence lower (p # ps) 0 = hasTitleAndLink p"
  by (simp add: firstOccurrence_def)

lemma firstOccurrence_Suc:
  "firstOccurrence lower (p # ps) (Suc i) =
     (firstOccurrence lower ps i \<and>
      (hasTitleAndLink p \<longrightarrow> titleKey lower p \<noteq> titleKey lower (ps ! i)))"
  by (auto simp: firstOccurrence_def All_less_Suc2)

lemma upt_length_Cons: "[0..<length (p # ps)] = 0 # map Suc [0..<length ps]"
  by (simp add: upt_conv_Cons map_Suc_upt del: upt_Suc)

lemma dedupeFrom_step:
  "dedupeFrom lower seen (Record p # rest) =
     (if hasTitleAndLink p \<and> titleKey lower p \<notin> seen
      then bindE (dedupeFrom lower (insert (titleKey lower p) seen) rest) (\<lambda>kept. Inr (p # kept))
      else dedupeFrom lower seen rest)"
  by (cases "title p") (auto simp: hasTitleAndLink_def titleKey_def Let_def)

lemma dedupeFrom_char:
  "dedupeFrom lower seen (map Record ps) =
     Inr (map (nth ps)
       (filter (\<lambda>i. firstOccurrence lower ps i \<and> titleKey lower (ps ! i) \<notin> seen)
          [0..<length ps]))"
proof (induction ps arbitrary: seen)
  case Nil
  then show ?case by simp
next
  case (Cons p ps)
  show ?case
  proof (cases "hasTitleAndLink p \<and> titleKey lower p \<notin> seen")
    case True
    have "\<And>i. (firstOccurrence lower (p # ps) (Suc i) \<and> titleKey lower (ps ! i) \<notin> seen)
            = (firstOccurrence lower ps i \<and>
               titleKey lower (ps ! i) \<notin> insert (titleKey lower p) seen)"
      using True by (auto simp: firstOccurrence_Suc)
    with True show ?thesis
      unfolding list.map dedupeFrom_step upt_length_Cons
      by (simp add: filter_map o_def firstOccurrence_0 Cons.IH del: dedupeFrom.simps)
  next
    case False
    have "\<And>i. (firstOccurrence lower (p # ps) (Suc i) \<and> titleKey lower (ps ! i) \<notin> seen)
            = (firstOccurrence lower ps i \<and> titleKey lower (ps ! i) \<notin> seen)"
      using False by (auto simp: firstOccurrence_Suc)
    with False show ?thesis
      unfolding list.map dedupeFrom_step upt_length_Cons
      by (auto simp add: filter_map o_def firstOccurrence_0 Cons.IH simp del: dedupeFrom.simps)
  qed
qed

lemma dedupeFrom_elements:
  "dedupeFrom lower seen els =
     (if list_ex raisesInFilter els then Inl TypeError
      else dedupeFrom lower seen (map Record (recordsOf els)))"
proof (induction els arbitrary: seen)
  case Nil
  then show ?case by simp
next
  case (Cons el els)
  show ?case
  proof (cases el)
    case (Record p)
    then show ?thesis
      by (simp add: dedupeFrom_step Cons.IH del: dedupeFrom.simps(5))
  qed (simp_all add: Cons.IH)
qed

lemma firstOccurrences_valid:
  "p \<in> set (map (nth ps) (filter (firstOccurrence lower ps) [0..<length ps])) \<Longrightarrow>
   hasTitleAndLink p"
  by (auto simp: firstOccurrence_def)

lemma dedupeFrom_distinct:
  "dedupeFrom lower seen (map Record ps) = Inr kept \<Longrightarrow>
   distinct (map (titleKey lower) kept) \<and> (\<forall>p \<in> set kept. titleKey lower p \<notin> seen)"
proof (induction ps arbitrary: seen kept)
  case Nil
  then show ?case by simp
next
  case (Cons p ps)
  show ?case
  proof (cases "hasTitleAndLink p \<and> titleKey lower p \<notin> seen")
    case True
    obtain rest where rest: "dedupeFrom lower (insert (titleKey lower p) seen) (map Record ps) = Inr rest"
      by (simp add: dedupeFrom_char)
    with True Cons.prems have kept: "kept = p # rest"
      by (simp add: dedupeFrom_step del: dedupeFrom.simps(5))
    from Cons.IH [OF rest] True show ?thesis
      unfolding kept by auto
  next
    case False
    with Cons.prems have "dedupeFrom lower seen (map Record ps) = Inr kept"
      by (simp add: dedupeFrom_step del: dedupeFrom.simps(5))
    from Cons.IH [OF this] show ?thesis .
  qed
qed

text \<open>
  C2. For a list of records the store is exactly the records at the positions of first
  occurrence: those that have a title and a link (a missing or empty one counts as
  missing, as in \<open>!project.title\<close>) and whose lowercased title no earlier such record has,
  in input order. For any list of elements the filter raises exactly when an element is
  \<open>null\<close> or has a truthy title that is no string together with a truthy link; when it
  returns, the store is the one of the records among the elements, every record in it
  has a title and a link, and no two share a lowercased title. Two records whose titles
  the host's \<open>toLowerCase\<close> maps to the same string collapse to the first; so do
  \<open>Foo\<close> and \<open>foo\<close>, which every lower-casing that folds the ASCII letters identifies.
\<close>

theorem dedupe_keeps_first_occurrences:
  "dedupe toLowerCase (map Record ps) =
     Inr (map (nth ps) (filter (firstOccurrence toLowerCase ps) [0..<length ps])) \<and>
   (dedupe toLowerCase elements = Inl TypeError) = (\<exists>el \<in> set elements. raisesInFilter el) \<and>
   (\<forall>store. dedupe toLowerCase elements = Inr store \<longrightarrow>
      dedupe toLowerCase (map Record (recordsOf elements)) = Inr store \<and>
      (\<forall>p \<in> set store. hasTitleAndLink p) \<and>
      distinct (map (titleKey toLowerCase) store)) \<and>
   (title a = Some s \<and> title b = Some t \<and> s \<noteq> [] \<and> t \<noteq> [] \<and> truthy (link a) \<and>
    truthy (link b) \<and> toLowerCase s = toLowerCase t \<longrightarrow>
      dedupe toLowerCase [Record a, Record b] = Inr [a]) \<and>
   (title a = Some ''Foo'' \<and> title b = Some ''foo'' \<and> truthy (link a) \<and> truthy (link b) \<and>
    toLowerCase ''Foo'' = toLowerCase ''foo'' \<longrightarrow>
      dedupe toLowerCase [Record a, Record b] = Inr [a])"
proof -
  have exact: "dedupe toLowerCase (map Record qs) =
      Inr (map (nth qs) (filter (firstOccurrence toLowerCase qs) [0..<length qs]))" for qs
    by (simp add: dedupe_def dedupeFrom_char)
  have raises: "(dedupe toLowerCase elements = Inl TypeError) =
      (\<exists>el \<in> set elements. raisesInFilter el)"
    by (simp add: dedupe_def dedupeFrom_elements [of toLowerCase "{}" elements]
        dedupeFrom_char list_ex_iff)
  have returned: "\<forall>store. dedupe toLowerCase elements = Inr store \<longrightarrow>
      dedupe toLowerCase (map Record (recordsOf elements)) = Inr store \<and>
      (\<forall>p \<in> set store. hasTitleAndLink p) \<and>
      distinct (map (titleKey toLowerCase) store)"
  proof (intro allI impI)
    fix store
    assume r: "dedupe toLowerCase elements = Inr store"
    then have recs: "dedupe toLowerCase (map Record (recordsOf elements)) = Inr store"
      by (simp add: dedupe_def dedupeFrom_elements [of toLowerCase "{}" elements]
          split: if_splits)
    then have "store = map (nth (recordsOf elements))
        (filter (firstOccurrence toLowerCase (recordsOf elements))
           [0..<length (recordsOf elements)])"
      by (simp add: exact)
    then have "\<forall>p \<in> set store. hasTitleAndLink p"
      using firstOccurrences_valid [of _ "recordsOf elements" toLowerCase] by blast
    moreover from recs have "distinct (map (titleKey toLowerCase) store)"
      using dedupeFrom_distinct [of toLowerCase "{}" "recordsOf elements" store]
      by (simp add: dedupe_def)
    ultimately show "dedupe toLowerCase (map Record (recordsOf elements)) = Inr store \<and>
      (\<forall>p \<in> set store. hasTitleAndLink p) \<and> distinct (map (titleKey toLowerCase) store)"
      using recs by blast
  qed
  have pair: "dedupe toLowerCase [Record a, Record b] = Inr [a]"
    if "title a = Some s \<and> title b = Some t \<and> s \<noteq> [] \<and> t \<noteq> [] \<and> truthy (link a) \<and>
      truthy (link b) \<and> toLowerCase s = toLowerCase t" for s t
    using that by (simp add: dedupe_def)
  have general: "title a = Some s \<and> title b = Some t \<and> s \<noteq> [] \<and> t \<noteq> [] \<and> truthy (link a) \<and>
      truthy (link b) \<and> toLowerCase s = toLowerCase t \<longrightarrow>
      dedupe toLowerCase [Record a, Record b] = Inr [a]"
    using pair [of s t] by (rule impI)
  have foo: "title a = Some ''Foo'' \<and> title b = Some ''foo'' \<and> truthy (link a) \<and>
      truthy (link b) \<and> toLowerCase ''Foo'' = toLowerCase ''foo'' \<longrightarrow>
      dedupe toLowerCase [Record a, Record b] = Inr [a]"
  proof
    assume h: "title a = Some ''Foo'' \<and> title b = Some ''foo'' \<and> truthy (link a) \<and>
      truthy (link b) \<and> toLowerCase ''Foo'' = toLowerCase ''foo''"
    then have "title a = Some ''Foo'' \<and> title b = Some ''foo'' \<and> ''Foo'' \<noteq> [] \<and> ''foo'' \<noteq> [] \<and>
      truthy (link a) \<and> truthy (link b) \<and> toLowerCase ''Foo'' = toLowerCase ''foo''"
      by simp
    then show "dedupe toLowerCase [Record a, Record b] = Inr [a]"
      by (rule pair)
  qed
  from exact [of ps] raises returned general foo show ?thesis
    by (intro conjI)
qed

theorem dedupe_keeps_first_occurrences_witness:
  "dedupe asciiLowerCase [Record sampleFoo, Record sampleNoLink, Record sampleFooLower,
     Record sampleBar] = Inr [sampleFoo, sampleBar] \<and>
   dedupe asciiLowerCase [Record sampleFoo, NullElement] = Inl TypeError \<and>
   dedupe asciiLowerCase [PrimitiveElement, Record sampleFoo, NonStringTitle True False] =
     Inr [sampleFoo] \<and>
   title sampleFoo = Some ''Foo'' \<and> title sampleFooLower = Some ''foo'' \<and>
   dedupe asciiLowerCase [Record sampleFoo, Record sampleFooLower] = Inr [sampleFoo] \<and>
   sampleFold [CHR 0xC9, CHR ''c'', CHR ''o'', CHR ''l'', CHR ''e''] =
     sampleFold [CHR 0xE9, CHR ''c'', CHR ''o'', CHR ''l'', CHR ''e''] \<and>
   dedupe sampleFold [Record sampleEcole, Record sampleEcoleLower] = Inr [sampleEcole]"
proof -
  let ?ps = "[sampleFoo, sampleNoLink, sampleFooLower, sampleBar]"
  have keys: "titleKey asciiLowerCase sampleFoo = ''foo''"
    "titleKey asciiLowerCase sampleFooLower = ''foo''"
    "titleKey asciiLowerCase sampleBar = ''foo bar''"
    "titleKey asciiLowerCase sampleNoLink = ''foo''"
    by (simp_all add: titleKey_def sampleFoo_def sampleFooLower_def sampleBar_def sampleNoLink_def
        asciiLowerCase_def asciiLowerChar_def)
  have valid: "hasTitleAndLink sampleFoo" "hasTitleAndLink sampleFooLower"
    "hasTitleAndLink sampleBar" "\<not> hasTitleAndLink sampleNoLink"
    by (simp_all add: hasTitleAndLink_def sampleFoo_def sampleFooLower_def sampleBar_def
        sampleNoLink_def)
  have fo: "firstOccurrence asciiLowerCase ?ps 0" "\<not> firstOccurrence asciiLowerCase ?ps 1"
    "\<not> firstOccurrence asciiLowerCase ?ps 2" "firstOccurrence asciiLowerCase ?ps 3"
    by (simp_all add: firstOccurrence_def keys valid All_less_Suc2 eval_nat_numeral)
  have positions: "filter (firstOccurrence asciiLowerCase ?ps) [0..<length ?ps] = [0, 3]"
    using fo by (simp add: upt_conv_Cons eval_nat_numeral)
  note inst = dedupe_keeps_first_occurrences [where toLowerCase = asciiLowerCase and ps = ?ps and
      elements = "[Record sampleFoo, NullElement]" and a = sampleFoo and b = sampleFooLower and
      s = "''Foo''" and t = "''foo''"]
  note inst2 = dedupe_keeps_first_occurrences [where toLowerCase = asciiLowerCase and
      ps = "[]" and
      elements = "[PrimitiveElement, Record sampleFoo, NonStringTitle True False]" and
      a = sampleFoo and b = sampleFooLower and s = "''Foo''" and t = "''foo''"]
  note inst3 = dedupe_keeps_first_occurrences [where toLowerCase = sampleFold and ps = "[]" and
      elements = "[]" and a = sampleEcole and b = sampleEcoleLower and
      s = "[CHR 0xC9, CHR ''c'', CHR ''o'', CHR ''l'', CHR ''e'']" and
      t = "[CHR 0xE9, CHR ''c'', CHR ''o'', CHR ''l'', CHR ''e'']"]
  from inst have "dedupe asciiLowerCase (map Record ?ps) =
      Inr (map (nth ?ps) (filter (firstOccurrence asciiLowerCase ?ps) [0..<length ?ps]))"
    by (elim conjE)
  then have first: "dedupe asciiLowerCase [Record sampleFoo, Record sampleNoLink,
      Record sampleFooLower, Record sampleBar] = Inr [sampleFoo, sampleBar]"
    unfolding positions by simp
  from inst have "(dedupe asciiLowerCase [Record sampleFoo, NullElement] = Inl TypeError) =
      (\<exists>el \<in> set [Record sampleFoo, NullElement]. raisesInFilter el)"
    by (elim conjE)
  then have raised: "dedupe asciiLowerCase [Record sampleFoo, NullElement] = Inl TypeError"
    by simp
  from inst2 have "(dedupe asciiLowerCase
        [PrimitiveElement, Record sampleFoo, NonStringTitle True False] = Inl TypeError) =
      (\<exists>el \<in> set [PrimitiveElement, Record sampleFoo, NonStringTitle True False].
         raisesInFilter el)"
    by (elim conjE)
  then have returns: "dedupe asciiLowerCase
      [PrimitiveElement, Record sampleFoo, NonStringTitle True False] \<noteq> Inl TypeError"
    by simp
  from inst2 have "\<forall>store. dedupe asciiLowerCase
        [PrimitiveElement, Record sampleFoo, NonStringTitle True False] = Inr store \<longrightarrow>
      dedupe asciiLowerCase (map Record
        (recordsOf [PrimitiveElement, Record sampleFoo, NonStringTitle True False])) = Inr store \<and>
      (\<forall>p \<in> set store. hasTitleAndLink p) \<and>
      distinct (map (titleKey asciiLowerCase) store)"
    by (elim conjE)
  moreover have "dedupe asciiLowerCase [Record sampleFoo] = Inr [sampleFoo]"
    using valid(1) by (simp add: dedupe_def hasTitleAndLink_def sampleFoo_def)
  ultimately have skipped: "dedupe asciiLowerCase
      [PrimitiveElement, Record sampleFoo, NonStringTitle True False] = Inr [sampleFoo]"
    using returns
    by (cases "dedupe asciiLowerCase
      [PrimitiveElement, Record sampleFoo, NonStringTitle True False]")
      (auto simp: js_error_TypeError)
  have titles: "title sampleFoo = Some ''Foo''" "title sampleFooLower = Some ''foo''"
    "truthy (link sampleFoo)" "truthy (link sampleFooLower)"
    by (simp_all add: sampleFoo_def sampleFooLower_def)
  have fold: "asciiLowerCase ''Foo'' = asciiLowerCase ''foo''"
    by (simp add: asciiLowerCase_def asciiLowerChar_def)
  from inst have "title sampleFoo = Some ''Foo'' \<and> title sampleFooLower = Some ''foo'' \<and>
      truthy (link sampleFoo) \<and> truthy (link sampleFooLower) \<and>
      asciiLowerCase ''Foo'' = asciiLowerCase ''foo'' \<longrightarrow>
      dedupe asciiLowerCase [Record sampleFoo, Record sampleFooLower] = Inr [sampleFoo]"
    by (elim conjE)
  with titles fold
  have collapse: "dedupe asciiLowerCase [Record sampleFoo, Record sampleFooLower] =
      Inr [sampleFoo]"
    by (elim impE) (intro conjI)
  have accent: "sampleFold [CHR 0xC9, CHR ''c'', CHR ''o'', CHR ''l'', CHR ''e''] =
      sampleFold [CHR 0xE9, CHR ''c'', CHR ''o'', CHR ''l'', CHR ''e'']"
    by (simp add: sampleFold_def asciiLowerChar_def)
  have ecole: "title sampleEcole = Some [CHR 0xC9, CHR ''c'', CHR ''o'', CHR ''l'', CHR ''e'']"
    "title sampleEcoleLower = Some [CHR 0xE9, CHR ''c'', CHR ''o'', CHR ''l'', CHR ''e'']"
    "truthy (link sampleEcole)" "truthy (link sampleEcoleLower)"
    by (simp_all add: sampleEcole_def sampleEcoleLower_def)
  from inst3 have "title sampleEcole = Some [CHR 0xC9, CHR ''c'', CHR ''o'', CHR ''l'', CHR ''e''] \<and>
      title sampleEcoleLower = Some [CHR 0xE9, CHR ''c'', CHR ''o'', CHR ''l'', CHR ''e''] \<and>
      [CHR 0xC9, CHR ''c'', CHR ''o'', CHR ''l'', CHR ''e''] \<noteq> [] \<and>
      [CHR 0xE9, CHR ''c'', CHR ''o'', CHR ''l'', CHR ''e''] \<noteq> [] \<and>
      truthy (link sampleEcole) \<and> truthy (link sampleEcoleLower) \<and>
      sampleFold [CHR 0xC9, CHR ''c'', CHR ''o'', CHR ''l'', CHR ''e''] =
        sampleFold [CHR 0xE9, CHR ''c'', CHR ''o'', CHR ''l'', CHR ''e''] \<longrightarrow>
      dedupe sampleFold [Record sampleEcole, Record sampleEcoleLower] = Inr [sampleEcole]"
    by (elim conjE)
  with ecole accent
  have accents: "dedupe sampleFold [Record sampleEcole, Record sampleEcoleLower] =
      Inr [sampleEcole]"
    by simp
  from first raised skipped titles(1,2) collapse accent accents show ?thesis
    by (intro conjI)
qed

section \<open>Properties: pagination\<close>

lemma take_drop_map_nth:
  "take n (drop k xs) = map (nth xs) [k..<min (k + n) (length xs)]"
  by (rule nth_equalityI) auto

lemma slice_nonneg:
  assumes "0 \<le> start" "start \<le> stop"
  shows "slice xs start stop = map (nth xs) [nat start..<min (length xs) (nat stop)]"
proof -
  let ?k = "min start (int (length xs))" and ?f = "min stop (int (length xs))"
  have "slice xs start stop = take (nat (?f - ?k)) (drop (nat ?k) xs)"
    using assms by (simp add: slice_def Let_def)
  also have "\<dots> = map (nth xs) [nat ?k..<min (nat ?k + nat (?f - ?k)) (length xs)]"
    by (rule take_drop_map_nth)
  also have "\<dots> = map (nth xs) [nat start..<min (length xs) (nat stop)]"
  proof (cases "start \<le> int (length xs)")
    case True
    then have "min (nat ?k + nat (?f - ?k)) (length xs) = min (length xs) (nat stop)"
      using assms by (auto simp: min_def)
    with True assms show ?thesis by (simp add: min_def)
  next
    case False
    then have "length xs \<le> nat start" "min stop (int (length xs)) = int (length xs)"
      using assms by linarith+
    with False show ?thesis by (simp add: min_def)
  qed
  finally show ?thesis .
qed

lemma ceiling_div_int:
  fixes n s :: int
  assumes "0 < s"
  shows "- (- n div s) = (n + s - 1) div s"
proof -
  define q r where "q = n div s" and "r = n mod s"
  have n: "n = r + q * s"
    by (simp add: q_def r_def)
  have r: "0 \<le> r" "r < s"
    using assms by (simp_all add: r_def)
  show ?thesis
  proof (cases "r = 0")
    case True
    have "n + s - 1 = (s - 1) + q * s"
      using n True by simp
    then have "(n + s - 1) div s = ((s - 1) + q * s) div s"
      by (simp only:)
    also have "\<dots> = q + (s - 1) div s"
      by (rule div_mult_self1) (use assms in simp)
    finally have "(n + s - 1) div s = q + (s - 1) div s" .
    moreover have "(s - 1) div s = 0"
      using assms by simp
    moreover have "- n div s = - q"
      using assms True by (simp add: zdiv_zminus1_eq_if q_def r_def)
    ultimately show ?thesis by simp
  next
    case False
    have "n + s - 1 = (r - 1) + (q + 1) * s"
      using n by (simp add: algebra_simps)
    then have "(n + s - 1) div s = ((r - 1) + (q + 1) * s) div s"
      by (simp only:)
    also have "\<dots> = (q + 1) + (r - 1) div s"
      by (rule div_mult_self1) (use assms in simp)
    finally have "(n + s - 1) div s = (q + 1) + (r - 1) div s" .
    moreover have "(r - 1) div s = 0"
      using r False by simp
    moreover have "- n div s = - q - 1"
      using assms False by (simp add: zdiv_zminus1_eq_if q_def r_def)
    ultimately show ?thesis by simp
  qed
qed

lemma totalPages_div:
  "0 < ITEMS_PER_PAGE cfg \<Longrightarrow>
   totalPages cfg xs =
     (int (length xs) + int (ITEMS_PER_PAGE cfg) - 1) div int (ITEMS_PER_PAGE cfg)"
proof -
  assume pos: "0 < ITEMS_PER_PAGE cfg"
  have "totalPages cfg xs =
      \<lceil>real_of_int (int (length xs)) / real_of_int (int (ITEMS_PER_PAGE cfg))\<rceil>"
    by (simp add: totalPages_def)
  also have "\<dots> = - (- int (length xs) div int (ITEMS_PER_PAGE cfg))"
    by (rule ceiling_divide_eq_div)
  finally show ?thesis
    using pos by (simp add: ceiling_div_int)
qed

text \<open>
  C3. For a positive page size \<open>S\<close> and a page number \<open>p \<ge> 1\<close>, the page shown for a
  sequence of length \<open>N\<close> consists of the elements at the indices from \<open>(p - 1) * S\<close> up to,
  but not including, \<open>min N (p * S)\<close>, in order. The page count is the ceiling of
  \<open>N / S\<close>, which is \<open>(N + S - 1) div S\<close>, and it is \<open>0\<close> exactly when \<open>N = 0\<close>. With 25
  elements and pages of 12, page 1 has 12 elements, page 3 has 1, and there are 3 pages.
\<close>

theorem pagination_slices:
  assumes "0 < ITEMS_PER_PAGE cfg" and "1 \<le> p"
  shows "pageItems cfg p xs =
           map (nth xs) [nat ((p - 1) * int (ITEMS_PER_PAGE cfg))..<
                         min (length xs) (nat (p * int (ITEMS_PER_PAGE cfg)))] \<and>
         totalPages cfg xs = \<lceil>real (length xs) / real (ITEMS_PER_PAGE cfg)\<rceil> \<and>
         totalPages cfg xs =
           (int (length xs) + int (ITEMS_PER_PAGE cfg) - 1) div int (ITEMS_PER_PAGE cfg) \<and>
         (totalPages cfg xs = 0 \<longleftrightarrow> length xs = 0) \<and>
         (ITEMS_PER_PAGE cfg = 12 \<and> length xs = 25 \<longrightarrow>
            length (pageItems cfg 1 xs) = 12 \<and> length (pageItems cfg 3 xs) = 1 \<and>
            totalPages cfg xs = 3)"
proof -
  let ?s = "int (ITEMS_PER_PAGE cfg)"
  have pos: "0 < ?s" using assms(1) by simp
  have page: "pageItems cfg q xs = map (nth xs) [nat ((q - 1) * ?s)..<min (length xs) (nat (q * ?s))]"
    if "1 \<le> q" for q
  proof -
    have "0 \<le> (q - 1) * ?s" "(q - 1) * ?s \<le> (q - 1) * ?s + ?s"
      using that pos by simp_all
    then have "slice xs ((q - 1) * ?s) ((q - 1) * ?s + ?s) =
        map (nth xs) [nat ((q - 1) * ?s)..<min (length xs) (nat ((q - 1) * ?s + ?s))]"
      by (rule slice_nonneg)
    moreover have "(q - 1) * ?s + ?s = q * ?s"
      by (simp add: algebra_simps)
    ultimately show ?thesis
      by (simp add: pageItems_def Let_def)
  qed
  have total: "totalPages cfg xs = (int (length xs) + ?s - 1) div ?s"
    using assms(1) by (rule totalPages_div)
  have zero: "totalPages cfg xs = 0 \<longleftrightarrow> length xs = 0"
  proof
    assume "totalPages cfg xs = 0"
    then have "(int (length xs) + ?s - 1) div ?s = 0" using total by simp
    show "length xs = 0"
    proof (rule ccontr)
      assume "length xs \<noteq> 0"
      then have "?s \<le> int (length xs) + ?s - 1" by simp
      then have "0 < (int (length xs) + ?s - 1) div ?s"
        using pos by (simp only: pos_imp_zdiv_pos_iff)
      with \<open>(int (length xs) + ?s - 1) div ?s = 0\<close> show False by simp
    qed
  next
    assume "length xs = 0"
    then show "totalPages cfg xs = 0" by (simp add: totalPages_def)
  qed
  have example: "length (pageItems cfg 1 xs) = 12 \<and> length (pageItems cfg 3 xs) = 1 \<and>
      totalPages cfg xs = 3" if "ITEMS_PER_PAGE cfg = 12" "length xs = 25"
    using that by (simp add: page total)
  from page [OF assms(2)] total zero example show ?thesis
    by (simp add: totalPages_def)
qed

theorem pagination_slices_witness:
  "0 < ITEMS_PER_PAGE defaultConfig \<and> (1::int) \<le> 3 \<and>
   pageItems defaultConfig 3 [1..<26::nat] = [25] \<and>
   length (pageItems defaultConfig 1 [1..<26::nat]) = 12 \<and>
   totalPages defaultConfig [1..<26::nat] = 3"
proof -
  have pos: "0 < ITEMS_PER_PAGE defaultConfig"
    by (simp add: defaultConfig_def)
  have three: "(1::int) \<le> 3"
    by simp
  have size: "ITEMS_PER_PAGE defaultConfig = 12 \<and> length [1..<26::nat] = 25"
    by (simp add: defaultConfig_def)
  from pagination_slices [OF pos three, of "[1..<26::nat]"] size
  have "pageItems defaultConfig 3 [1..<26::nat] = map (nth [1..<26]) [24..<25]"
    and "length (pageItems defaultConfig 1 [1..<26::nat]) = 12"
    and "totalPages defaultConfig [1..<26::nat] = 3"
    by simp_all
  moreover have "map (nth [1..<26::nat]) [24..<25] = [25]"
    by (simp add: upt_rec)
  ultimately show ?thesis
    using pos by simp
qed

section \<open>Properties: ratings\<close>

lemma foldl_rating_sum:
  "foldl (\<lambda>acc r. acc + rating r) a rs = a + sum_list (map rating rs)"
  by (induction rs arbitrary: a) simp_all

lemma sanitizeKey_examples:
  "sanitizeKey ''Foo Bar'' = ''foo_bar''" "sanitizeKey ''foo-bar'' = ''foo_bar''"
  "sanitizeKey ''constructor'' = ''constructor''" "sanitizeKey ''Constructor'' = ''constructor''"
  "sanitizeKey ''Foo'' = ''foo''"
  by (simp_all add: sanitizeKey_def asciiLowerCase_def asciiLowerChar_def isAlnum_def)

lemma getProjectRating_key:
  "getProjectRating ratings t =
     (case ratings (sanitizeKey t) of
        None \<Rightarrow>
          if inheritedName (sanitizeKey t) then Inl TypeError
          else Inr \<lparr>average = 0, count = 0\<rparr>
      | Some rs \<Rightarrow>
          if rs = [] then Inr \<lparr>average = 0, count = 0\<rparr>
          else Inr \<lparr>average = real_of_int (sum_list (map rating rs)) / real (length rs),
                    count = length rs\<rparr>)"
  by (simp add: getProjectRating_def lookupRatings_def Let_def foldl_rating_sum
      split: option.split)

text \<open>
  C8. When the rating sequence stored under a project's key is \<open>r\<^sub>1, \<dots>, r\<^sub>n\<close> with
  \<open>n > 0\<close>, \<open>getProjectRating\<close> returns the average \<open>(r\<^sub>1 + \<dots> + r\<^sub>n) / n\<close> and the count
  \<open>n\<close>; the ratings 5, 3, 4 give the average 4 and the count 3.
\<close>

theorem getProjectRating_average:
  assumes "ratings (sanitizeKey t) = Some rs" and "rs \<noteq> []"
  shows "getProjectRating ratings t =
           Inr \<lparr>average = real_of_int (sum_list (map rating rs)) / real (length rs),
                count = length rs\<rparr> \<and>
         (map rating rs = [5, 3, 4] \<longrightarrow>
            getProjectRating ratings t = Inr \<lparr>average = 4, count = 3\<rparr>)"
proof -
  have g: "getProjectRating ratings t =
      Inr \<lparr>average = real_of_int (sum_list (map rating rs)) / real (length rs),
           count = length rs\<rparr>"
    using assms by (simp add: getProjectRating_key)
  have "getProjectRating ratings t = Inr \<lparr>average = 4, count = 3\<rparr>"
    if "map rating rs = [5, 3, 4]"
  proof -
    from that have "length (map rating rs) = 3" by simp
    then have "length rs = 3" by simp
    with that g show ?thesis by simp
  qed
  with g show ?thesis by blast
qed

theorem getProjectRating_average_witness:
  "sampleRatings (sanitizeKey ''Foo Bar'') = Some sampleStars \<and> sampleStars \<noteq> [] \<and>
   map rating sampleStars = [5, 3, 4] \<and>
   getProjectRating sampleRatings ''Foo Bar'' = Inr \<lparr>average = 4, count = 3\<rparr>"
proof -
  have k: "sampleRatings (sanitizeKey ''Foo Bar'') = Some sampleStars"
    by (simp add: sampleRatings_def sanitizeKey_examples)
  have n: "sampleStars \<noteq> []"
    by (simp add: sampleStars_def)
  have m: "map rating sampleStars = [5, 3, 4]"
    by (simp add: sampleStars_def)
  from getProjectRating_average [of sampleRatings "''Foo Bar''" sampleStars, OF k n] m
  have "getProjectRating sampleRatings ''Foo Bar'' = Inr \<lparr>average = 4, count = 3\<rparr>"
    by blast
  with k n m show ?thesis by simp
qed












section \<open>Properties: strings\<close>

text \<open>
  \<open>includesStr s q\<close> is the statement that \<open>s\<close> can be cut into a part before, \<open>q\<close> itself
  and a part after (\<^const>\<open>sublist\<close>).
\<close>

lemma startsWith_prefix: "startsWith s q = prefix q s"
  by (induction s q rule: startsWith.induct) auto

lemma includesStr_sublist: "includesStr s q = sublist q s"
  by (induction s) (simp_all add: startsWith_prefix sublist_Cons_right)

section \<open>Properties: contributors\<close>

text \<open>
  C9. When the endpoint answers with an array of contributors, the cards shown are the
  entries whose login does not contain \<open>[bot]\<close>, in the order of the answer: no entry
  with such a login is shown, every other entry is shown, and the shown sequence is a
  subsequence of the answer.
\<close>

theorem fetchContributors_excludes_bots:
  "fetchContributors (Response ok (Some (ContributorArray contributors))) =
     Cards (filter (\<lambda>c. \<not> sublist ''[bot]'' (login c)) contributors) \<and>
   (\<forall>shown. fetchContributors (Response ok (Some (ContributorArray contributors))) = Cards shown
      \<longrightarrow> (\<forall>c \<in> set contributors. sublist ''[bot]'' (login c) \<longrightarrow> c \<notin> set shown) \<and>
          (\<forall>c \<in> set contributors. \<not> sublist ''[bot]'' (login c) \<longrightarrow> c \<in> set shown) \<and>
          subseq shown contributors)"
  by (auto simp: fetchContributors_def humanContributors_def includesStr_sublist)

theorem fetchContributors_excludes_bots_witness:
  "fetchContributors (Response True (Some (ContributorArray sampleContributors))) =
     Cards [sampleContributors ! 0, sampleContributors ! 2] \<and>
   sublist ''[bot]'' (login (sampleContributors ! 1)) \<and>
   \<not> sublist ''[bot]'' (login (sampleContributors ! 0)) \<and>
   \<not> sublist ''[bot]'' (login (sampleContributors ! 2))"
proof -
  have bots: "sublist ''[bot]'' (login (sampleContributors ! 1))"
    "\<not> sublist ''[bot]'' (login (sampleContributors ! 0))"
    "\<not> sublist ''[bot]'' (login (sampleContributors ! 2))"
    by (simp_all add: sampleContributors_def sublist_Cons_right)
  have "filter (\<lambda>c. \<not> sublist ''[bot]'' (login c)) sampleContributors =
      [sampleContributors ! 0, sampleContributors ! 2]"
    by (simp add: sampleContributors_def sublist_Cons_right)
  with fetchContributors_excludes_bots [of True sampleContributors] bots show ?thesis
    by simp
qed

section \<open>Properties: sorting\<close>

lemma ranks:
  "firstLetterRank ''Zeta'' = 122" "firstLetterRank ''alpha'' = 97"
  "firstLetterRank ''Mango'' = 109"
  by (simp_all add: firstLetterRank_def asciiLowerChar_def)


lemma mset_insortBy: "mset (insortBy cmp x ys) = add_mset x (mset ys)"
  by (induction ys) auto

lemma mset_sortBy: "mset (sortBy cmp xs) = mset xs"
  by (induction xs) (simp_all add: sortBy_def mset_insortBy)

lemma set_sortBy: "set (sortBy cmp xs) = set xs"
  using mset_sortBy [of cmp xs] by (metis set_mset_mset)

lemma sortBy_Cons: "sortBy cmp (x # xs) = insortBy cmp x (sortBy cmp xs)"
  by (simp add: sortBy_def)

lemma sortBy_Nil: "sortBy cmp [] = []"
  by (simp add: sortBy_def)

lemma sortBy_eq_Nil: "(sortBy cmp xs = []) = (xs = [])"
  using mset_sortBy [of cmp xs] by (metis mset_zero_iff)



lemma insortBy_key:
  "(\<And>a b. (cmp a b \<le> 0) = (k a \<le> k b)) \<Longrightarrow> insortBy cmp x ys = insort_key k x ys"
  by (induction ys) simp_all

lemma sortBy_key:
  "(\<And>a b. (cmp a b \<le> 0) = (k a \<le> k b)) \<Longrightarrow> sortBy cmp xs = sort_key k xs"
  by (induction xs) (simp_all add: sortBy_def insortBy_key)

lemma consistent_key: "consistentComparator (\<lambda>a b. k a - (k b :: real))"
  by (auto simp: consistentComparator_def)


text \<open>
  A comparator that raises exactly on the pairs with a bad element: the sort raises
  exactly when the list has two elements or more and one of them is bad.
\<close>

lemma insort_js_good:
  assumes "\<And>a b. comparefn a b = (if bad a \<or> bad b then Inl TypeError else Inr (cmp a b))"
    and "\<not> bad x" and "\<forall>y \<in> set ys. \<not> bad y"
  shows "insort_js comparefn x ys = Inr (insortBy cmp x ys)"
  using assms(3) by (induction ys) (simp_all add: assms(1,2))

lemma insort_js_bad:
  assumes "\<And>a b. comparefn a b = (if bad a \<or> bad b then Inl TypeError else Inr (cmp a b))"
    and "bad x \<or> bad y"
  shows "insort_js comparefn x (y # ys) = Inl TypeError"
  using assms(2) by (simp add: assms(1))

lemma sort_js_raising:
  assumes cmp: "\<And>a b. comparefn a b = (if bad a \<or> bad b then Inl TypeError else Inr (cmp a b))"
  shows "sort_js comparefn xs =
           (if 2 \<le> length xs \<and> (\<exists>x \<in> set xs. bad x) then Inl TypeError
            else Inr (sortBy cmp xs))"
proof (induction xs)
  case Nil
  then show ?case by (simp add: sortBy_Nil)
next
  case (Cons x xs)
  show ?case
  proof (cases xs)
    case Nil
    then show ?thesis by (simp add: sortBy_def)
  next
    case (Cons y ys)
    show ?thesis
    proof (cases "\<exists>z \<in> set xs. bad z")
      case True
      show ?thesis
      proof (cases ys)
        case Nil
        with Cons True have "bad y" by simp
        then have "insort_js comparefn x [y] = Inl TypeError"
          by (intro insort_js_bad [OF cmp]) simp
        with Cons Nil True show ?thesis
          by (simp add: sortBy_def)
      next
        case (Cons z zs)
        with \<open>xs = y # ys\<close> have "2 \<le> length xs" by simp
        with True Cons.IH have "sort_js comparefn xs = Inl TypeError" by simp
        with True \<open>xs = y # ys\<close> show ?thesis by simp
      qed
    next
      case False
      with Cons.IH have srt: "sort_js comparefn xs = Inr (sortBy cmp xs)" by auto
      from False have good: "\<forall>z \<in> set (sortBy cmp xs). \<not> bad z"
        by (simp add: set_sortBy)
      from Cons obtain s ss where s: "sortBy cmp xs = s # ss"
        using sortBy_eq_Nil [of cmp xs] by (cases "sortBy cmp xs") auto
      show ?thesis
      proof (cases "bad x")
        case True
        then have "insort_js comparefn x (s # ss) = Inl TypeError"
          by (intro insort_js_bad [OF cmp]) simp
        with srt s True Cons show ?thesis by simp
      next
        case bx: False
        from insort_js_good [OF cmp bx good]
        have "insort_js comparefn x (sortBy cmp xs) = Inr (insortBy cmp x (sortBy cmp xs))" .
        with srt bx False show ?thesis
          by (simp add: sortBy_Cons)
      qed
    qed
  qed
qed


lemma ratingOf_cases:
  "ratingOf ratings p =
     (if ratingRaises ratings p then Inl TypeError else Inr (ratingAverage ratings p))"
proof (cases "ratingOf ratings p")
  case (Inl e)
  then show ?thesis by (cases e) (simp add: ratingRaises_def)
next
  case (Inr v)
  then show ?thesis by (simp add: ratingRaises_def ratingAverage_def)
qed

lemma rating_comparators:
  "bindE (ratingOf ratings a) (\<lambda>ratingA. bindE (ratingOf ratings b) (\<lambda>ratingB.
      Inr (ratingB - ratingA))) =
     (if ratingRaises ratings a \<or> ratingRaises ratings b then Inl TypeError
      else Inr (ratingAverage ratings b - ratingAverage ratings a))"
  "bindE (ratingOf ratings a) (\<lambda>ratingA. bindE (ratingOf ratings b) (\<lambda>ratingB.
      Inr (ratingA - ratingB))) =
     (if ratingRaises ratings a \<or> ratingRaises ratings b then Inl TypeError
      else Inr (ratingAverage ratings a - ratingAverage ratings b))"
  by (simp_all add: ratingOf_cases)

lemma applySort_rating_high:
  "applySort lc ratings ''rating-high'' xs =
     (if 2 \<le> length xs \<and> (\<exists>p \<in> set xs. ratingRaises ratings p) then Inl TypeError
      else Inr (sort_key (\<lambda>p. - ratingAverage ratings p) xs))"
proof -
  have "sortBy (\<lambda>a b. ratingAverage ratings b - ratingAverage ratings a) xs =
      sort_key (\<lambda>p. - ratingAverage ratings p) xs"
    by (rule sortBy_key) simp
  then show ?thesis
    using sort_js_raising [of _ "ratingRaises ratings"
        "\<lambda>a b. ratingAverage ratings b - ratingAverage ratings a" xs,
        OF rating_comparators(1)]
    by (simp add: applySort_def)
qed

lemma applySort_rating_low:
  "applySort lc ratings ''rating-low'' xs =
     (if 2 \<le> length xs \<and> (\<exists>p \<in> set xs. ratingRaises ratings p) then Inl TypeError
      else Inr (sort_key (ratingAverage ratings) xs))"
proof -
  have "sortBy (\<lambda>a b. ratingAverage ratings a - ratingAverage ratings b) xs =
      sort_key (ratingAverage ratings) xs"
    by (rule sortBy_key) simp
  then show ?thesis
    using sort_js_raising [of _ "ratingRaises ratings"
        "\<lambda>a b. ratingAverage ratings a - ratingAverage ratings b" xs,
        OF rating_comparators(2)]
    by (simp add: applySort_def)
qed

text \<open>
  C7. The two rating sorts are stable: for every list and every rating value, the records
  whose average rating has that value appear after the sort in the same order as before
  it, so any two records with equal averages keep their relative order. The sort returns
  whenever reading the rating raises for no record of the list; it raises exactly when
  the list has at least two records and reading the rating raises for one of them.
\<close>

theorem rating_sorts_stable:
  "(\<forall>ordered. applySort lc ratings ''rating-high'' xs = Inr ordered \<longrightarrow>
      filter (\<lambda>p. ratingAverage ratings p = v) ordered =
      filter (\<lambda>p. ratingAverage ratings p = v) xs) \<and>
   (\<forall>ordered. applySort lc ratings ''rating-low'' xs = Inr ordered \<longrightarrow>
      filter (\<lambda>p. ratingAverage ratings p = v) ordered =
      filter (\<lambda>p. ratingAverage ratings p = v) xs) \<and>
   (applySort lc ratings ''rating-high'' xs = Inl TypeError) =
     (2 \<le> length xs \<and> (\<exists>p \<in> set xs. ratingRaises ratings p)) \<and>
   (applySort lc ratings ''rating-low'' xs = Inl TypeError) =
     (2 \<le> length xs \<and> (\<exists>p \<in> set xs. ratingRaises ratings p)) \<and>
   ((\<forall>p \<in> set xs. \<not> ratingRaises ratings p) \<longrightarrow>
      (\<exists>descending ascending.
         applySort lc ratings ''rating-high'' xs = Inr descending \<and>
         applySort lc ratings ''rating-low'' xs = Inr ascending))"
proof -
  have "filter (\<lambda>p. - ratingAverage ratings p = - v)
      (sort_key (\<lambda>p. - ratingAverage ratings p) xs) =
      filter (\<lambda>p. - ratingAverage ratings p = - v) xs"
    by (rule sort_key_stable)
  then have high: "filter (\<lambda>p. ratingAverage ratings p = v)
      (sort_key (\<lambda>p. - ratingAverage ratings p) xs) =
      filter (\<lambda>p. ratingAverage ratings p = v) xs"
    by simp
  have low: "filter (\<lambda>p. ratingAverage ratings p = v) (sort_key (ratingAverage ratings) xs) =
      filter (\<lambda>p. ratingAverage ratings p = v) xs"
    by (rule sort_key_stable)
  have "\<forall>ordered. applySort lc ratings ''rating-high'' xs = Inr ordered \<longrightarrow>
      filter (\<lambda>p. ratingAverage ratings p = v) ordered =
      filter (\<lambda>p. ratingAverage ratings p = v) xs"
    using high by (auto simp: applySort_rating_high split: if_splits)
  moreover
  have "\<forall>ordered. applySort lc ratings ''rating-low'' xs = Inr ordered \<longrightarrow>
      filter (\<lambda>p. ratingAverage ratings p = v) ordered =
      filter (\<lambda>p. ratingAverage ratings p = v) xs"
    using low by (auto simp: applySort_rating_low split: if_splits)
  moreover
  have "(applySort lc ratings ''rating-high'' xs = Inl TypeError) =
      (2 \<le> length xs \<and> (\<exists>p \<in> set xs. ratingRaises ratings p))"
    by (simp add: applySort_rating_high)
  moreover
  have "(applySort lc ratings ''rating-low'' xs = Inl TypeError) =
      (2 \<le> length xs \<and> (\<exists>p \<in> set xs. ratingRaises ratings p))"
    by (simp add: applySort_rating_low)
  moreover
  have "(\<forall>p \<in> set xs. \<not> ratingRaises ratings p) \<longrightarrow>
      (\<exists>descending ascending.
         applySort lc ratings ''rating-high'' xs = Inr descending \<and>
         applySort lc ratings ''rating-low'' xs = Inr ascending)"
    by (simp add: applySort_rating_high applySort_rating_low)
  ultimately show ?thesis
    by (intro conjI)
qed

lemma sample_ratings:
  "ratingOf sampleRatings sampleFoo = Inr 0" "ratingOf sampleRatings sampleDash = Inr 4"
  "ratingOf sampleRatings sampleBar = Inr 4"
  "ratingOf sampleRatings sampleConstructor = Inl TypeError"
  by (simp_all add: ratingOf_def titleOf_def sampleFoo_def sampleDash_def sampleBar_def
      sampleConstructor_def getProjectRating_key sanitizeKey_examples sampleRatings_def
      sampleStars_def inheritedName_def)

lemma sample_averages:
  "ratingAverage sampleRatings sampleFoo = 0" "ratingAverage sampleRatings sampleDash = 4"
  "ratingAverage sampleRatings sampleBar = 4"
  "\<not> ratingRaises sampleRatings sampleFoo" "\<not> ratingRaises sampleRatings sampleDash"
  "\<not> ratingRaises sampleRatings sampleBar" "ratingRaises sampleRatings sampleConstructor"
  by (simp_all add: ratingAverage_def ratingRaises_def sample_ratings)

theorem rating_sorts_stable_witness:
  "applySort sampleCollation sampleRatings ''rating-high'' [sampleFoo, sampleDash, sampleBar] =
     Inr [sampleDash, sampleBar, sampleFoo] \<and>
   applySort sampleCollation sampleRatings ''rating-low'' [sampleDash, sampleFoo, sampleBar] =
     Inr [sampleFoo, sampleDash, sampleBar] \<and>
   ratingAverage sampleRatings sampleDash = ratingAverage sampleRatings sampleBar \<and>
   filter (\<lambda>p. ratingAverage sampleRatings p = 4) [sampleDash, sampleBar, sampleFoo] =
     [sampleDash, sampleBar] \<and>
   ratingRaises sampleRatings sampleConstructor \<and>
   applySort sampleCollation sampleRatings ''rating-high'' [sampleConstructor, sampleFoo] =
     Inl TypeError"
proof -
  have high: "applySort sampleCollation sampleRatings ''rating-high''
      [sampleFoo, sampleDash, sampleBar] = Inr [sampleDash, sampleBar, sampleFoo]"
    by (simp add: applySort_rating_high sample_averages)
  have low: "applySort sampleCollation sampleRatings ''rating-low''
      [sampleDash, sampleFoo, sampleBar] = Inr [sampleFoo, sampleDash, sampleBar]"
    by (simp add: applySort_rating_low sample_averages)
  note inst = rating_sorts_stable [where ratings = sampleRatings and v = 4 and
      lc = sampleCollation and xs = "[sampleFoo, sampleDash, sampleBar]"]
  from inst
  have "\<forall>ordered. applySort sampleCollation sampleRatings ''rating-high''
        [sampleFoo, sampleDash, sampleBar] = Inr ordered \<longrightarrow>
      filter (\<lambda>p. ratingAverage sampleRatings p = 4) ordered =
      filter (\<lambda>p. ratingAverage sampleRatings p = 4) [sampleFoo, sampleDash, sampleBar]"
    by (elim conjE)
  with high have tie: "filter (\<lambda>p. ratingAverage sampleRatings p = 4)
      [sampleDash, sampleBar, sampleFoo] = [sampleDash, sampleBar]"
    by (simp add: sample_averages)
  note inst2 = rating_sorts_stable [where ratings = sampleRatings and v = 4 and
      lc = sampleCollation and xs = "[sampleConstructor, sampleFoo]"]
  from inst2
  have "(applySort sampleCollation sampleRatings ''rating-high'' [sampleConstructor, sampleFoo] =
      Inl TypeError) = (2 \<le> length [sampleConstructor, sampleFoo] \<and>
        (\<exists>p \<in> set [sampleConstructor, sampleFoo]. ratingRaises sampleRatings p))"
    by (elim conjE)
  then have raised: "applySort sampleCollation sampleRatings ''rating-high''
      [sampleConstructor, sampleFoo] = Inl TypeError"
    by (simp add: sample_averages)
  from high low tie raised sample_averages(2,3,7) show ?thesis
    by (intro conjI) simp_all
qed







lemma sortBy_three:
  assumes "cmp a m \<le> 0" and "\<not> cmp z a \<le> 0" and "\<not> cmp z m \<le> 0"
  shows "sortBy cmp [z, a, m] = [a, m, z]"
  using assms by (simp add: sortBy_def)









section \<open>Properties: loading\<close>















section \<open>Properties: the declarations of fetchProjects\<close>

lemma fetchProjectsFrom_store:
  assumes "nothingLoaded projects"
    and "legacyResponse = Response True (Some (JArray legacy))"
    and "dedupe toLowerCase legacy = Inr kept"
  shows "fetchProjectsFrom cfg lc toLowerCase ratings selected page projects legacyResponse =
           (case render cfg lc ratings selected page True
                   ((newEngine kept)\<lparr>itemsPerPage := ITEMS_PER_PAGE cfg\<rparr>) of
              Inl error \<Rightarrow> ErrorMessage kept
            | Inr shown \<Rightarrow>
                Loaded kept ((newEngine kept)\<lparr>itemsPerPage := ITEMS_PER_PAGE cfg\<rparr>) shown)"
  using assms by (simp add: fetchProjectsFrom_def fetchFromLegacyJson_def Let_def)

text \<open>
  C5. The \<open>try\<close> block of \<open>fetchProjects\<close> declares \<open>projects\<close> with \<open>let\<close> on line 77 and
  again on line 78, which the language refuses before any code of the module runs: no
  call of \<open>fetchProjects\<close> takes place and the store is never assigned.
\<close>

theorem fetchProjects_redeclares_projects:
  "earlySyntaxError tryBlockDeclarations \<and>
   tryBlockDeclarations ! 0 = tryBlockDeclarations ! 1"
  by (simp add: earlySyntaxError_def tryBlockDeclarations_def)

section \<open>Properties: the visibility engine\<close>

lemma matchesCategory_inCategory: "matchesCategory c p = inCategory c p"
  by (auto simp: matchesCategory_def inCategory_def split: option.splits)

lemma matchesQuery_containsQuery: "matchesQuery q p = (q = [] \<or> containsQuery q p)"
  by (auto simp: matchesQuery_def containsQuery_def fieldIncludes_def techIncludes_def
      includesStr_sublist list_ex_iff split: option.splits)

lemma containsQuery_empty: "truthy (title p) \<Longrightarrow> containsQuery [] p"
  by (cases "title p") (auto simp: containsQuery_def asciiLowerCase_def)

text \<open>
  C1. \<open>getVisibleProjects\<close> returns exactly the records of the store, in store order, that
  are in the current category and, unless the query is empty, contain the query
  (case-insensitively) in the title, the description or a tech entry. Whatever query and
  category are set, the result is a subsequence of the store and each of its records
  passes both tests. With the empty query the result is the category-filtered store; with
  the category \<open>all\<close> or unset, the query-filtered store. The empty query is contained in
  every record that has a title.
\<close>

theorem getVisibleProjects_contract:
  "getVisibleProjects e =
     filter (\<lambda>p. inCategory (categoryFilter e) p \<and>
                 (searchQuery e = [] \<or> containsQuery (searchQuery e) p)) (store e) \<and>
   subseq (getVisibleProjects e) (store e) \<and>
   subseq (getVisibleProjects (setSearchQuery q (setCategory c e))) (store e) \<and>
   (\<forall>p \<in> set (getVisibleProjects (setSearchQuery q (setCategory c e))).
      (c = ''all'' \<or> category p = Some c) \<and> (q = [] \<or> containsQuery q p)) \<and>
   (searchQuery e = [] \<longrightarrow>
      getVisibleProjects e = filter (inCategory (categoryFilter e)) (store e)) \<and>
   (categoryFilter e = None \<or> categoryFilter e = Some ''all'' \<longrightarrow>
      getVisibleProjects e =
        filter (\<lambda>p. searchQuery e = [] \<or> containsQuery (searchQuery e) p) (store e)) \<and>
   (\<forall>p \<in> set (store e). truthy (title p) \<longrightarrow> containsQuery [] p)"
proof -
  have eq: "getVisibleProjects e =
      filter (\<lambda>p. inCategory (categoryFilter e) p \<and>
                  (searchQuery e = [] \<or> containsQuery (searchQuery e) p)) (store e)" for e
    by (simp add: getVisibleProjects_def matchesCategory_inCategory matchesQuery_containsQuery)
  have sub: "subseq (getVisibleProjects e) (store e)" for e
    by (simp add: getVisibleProjects_def)
  have sub2: "subseq (getVisibleProjects (setSearchQuery q (setCategory c e))) (store e)"
    using sub [of "setSearchQuery q (setCategory c e)"]
    by (simp add: setSearchQuery_def setCategory_def)
  have mem: "\<forall>p \<in> set (getVisibleProjects (setSearchQuery q (setCategory c e))).
      (c = ''all'' \<or> category p = Some c) \<and> (q = [] \<or> containsQuery q p)"
    by (auto simp: eq setSearchQuery_def setCategory_def inCategory_def)
  have emptyq: "searchQuery e = [] \<longrightarrow>
      getVisibleProjects e = filter (inCategory (categoryFilter e)) (store e)"
    by (simp add: eq)
  have allcat: "categoryFilter e = None \<or> categoryFilter e = Some ''all'' \<longrightarrow>
      getVisibleProjects e =
        filter (\<lambda>p. searchQuery e = [] \<or> containsQuery (searchQuery e) p) (store e)"
    by (auto simp: eq inCategory_def)
  have title: "\<forall>p \<in> set (store e). truthy (title p) \<longrightarrow> containsQuery [] p"
    by (simp add: containsQuery_empty)
  from eq [of e] sub [of e] sub2 mem emptyq allcat title show ?thesis
    by (intro conjI)
qed

theorem getVisibleProjects_contract_witness:
  "getVisibleProjects (setSearchQuery ''CSS'' (setCategory ''game''
     (newEngine [sampleFoo, sampleBar, sampleDash]))) = [sampleFoo] \<and>
   containsQuery ''CSS'' sampleFoo \<and> category sampleFoo = Some ''game'' \<and>
   getVisibleProjects (setSearchQuery ''bar'' (setCategory ''all''
     (newEngine [sampleFoo, sampleBar, sampleDash]))) = [sampleBar, sampleDash] \<and>
   getVisibleProjects (setSearchQuery [] (setCategory ''all''
     (newEngine [sampleFoo, sampleBar, sampleDash]))) = [sampleFoo, sampleBar, sampleDash]"
proof -
  let ?e = "newEngine [sampleFoo, sampleBar, sampleDash]"
  note defs = getVisibleProjects_def setSearchQuery_def setCategory_def newEngine_def
    matchesCategory_def matchesQuery_def fieldIncludes_def techIncludes_def
    sampleFoo_def sampleBar_def sampleDash_def asciiLowerCase_def asciiLowerChar_def
  have css: "getVisibleProjects (setSearchQuery ''CSS'' (setCategory ''game'' ?e)) = [sampleFoo]"
    by (simp add: defs)
  have bar: "getVisibleProjects (setSearchQuery ''bar'' (setCategory ''all'' ?e)) =
      [sampleBar, sampleDash]"
    by (simp add: defs)
  have everything: "getVisibleProjects (setSearchQuery [] (setCategory ''all'' ?e)) =
      [sampleFoo, sampleBar, sampleDash]"
    by (simp add: defs)
  from getVisibleProjects_contract [where e = "?e" and q = "''CSS''" and c = "''game''"]
  have "\<forall>p \<in> set (getVisibleProjects (setSearchQuery ''CSS'' (setCategory ''game'' ?e))).
      (''game'' = ''all'' \<or> category p = Some ''game'') \<and> (''CSS'' = [] \<or> containsQuery ''CSS'' p)"
    by (elim conjE)
  with css have "containsQuery ''CSS'' sampleFoo \<and> category sampleFoo = Some ''game''"
    by simp
  with css bar everything show ?thesis
    by (intro conjI) simp_all
qed

end
